theory Spec2Isabelle
  imports Complex_Main
begin

section \<open>The user-searching API: data model\<close>

text \<open>
  The embedding follows \<^verbatim>\<open>app.py\<close> and \<^verbatim>\<open>seed.py\<close>. Strings are \<open>string\<close>,
  Python's unbounded integers are \<open>int\<close>. Python's floating-point numbers are an
  abstract type \<open>'f\<close>, and the \<^verbatim>\<open>EARTH\<close> column type of the PostgreSQL extension
  \<^verbatim>\<open>earthdistance\<close> is an abstract type \<open>'e\<close>: every operation on them that the code
  calls is a field of the record \<open>externals\<close>, so that each theorem below holds
  whatever these library functions compute.
\<close>

record ('f, 'e) externals =
  py_int :: "string \<Rightarrow> int option"
    \<comment> \<open>\<^verbatim>\<open>int(s)\<close>; \<open>None\<close> is \<^verbatim>\<open>ValueError\<close>\<close>
  float_literal :: "string \<Rightarrow> 'f option"
    \<comment> \<open>\<^verbatim>\<open>float(s)\<close> on a string without surrounding whitespace; \<open>None\<close> is \<^verbatim>\<open>ValueError\<close>\<close>
  float_of_decimal :: "rat \<Rightarrow> 'f"
    \<comment> \<open>the float denoted by a decimal literal of the source text\<close>
  int_times_float :: "int \<Rightarrow> 'f \<Rightarrow> 'f option"
    \<comment> \<open>\<^verbatim>\<open>n * x\<close>; \<open>None\<close> is \<^verbatim>\<open>OverflowError\<close> (\<open>n\<close> too large for a float)\<close>
  float_less :: "'f \<Rightarrow> 'f \<Rightarrow> bool"
    \<comment> \<open>\<^verbatim>\<open><\<close> on double precision values, in the database\<close>
  ll_to_earth :: "'f \<Rightarrow> 'f \<Rightarrow> 'e"
  earth_distance :: "'e \<Rightarrow> 'e \<Rightarrow> 'f"
    \<comment> \<open>great-circle distance in meters\<close>
  latitude :: "'e \<Rightarrow> 'f"
  longitude :: "'e \<Rightarrow> 'f"

text \<open>\<^verbatim>\<open>MILE_TO_METER = 1609.34\<close>\<close>

definition MILE_TO_METER :: "('f, 'e) externals \<Rightarrow> 'f" where
  "MILE_TO_METER ext = float_of_decimal ext (160934 / 100)"

record user =
  user_id :: int
  user_name :: string
  user_age :: int
  user_gender :: string

record 'e location =
  loc_id :: int
  loc_user_id :: int
  loc_name :: string
  loc_location :: 'e

text \<open>
  The state of the database: the rows of the two tables, in the order in which the
  database returns them.
\<close>

record 'e database =
  users_table :: "user list"
  locations_table :: "'e location list"

text \<open>\<^verbatim>\<open>user.locations\<close>, the relationship over \<^verbatim>\<open>locations.user_id\<close>.\<close>

definition user_locations :: "'e database \<Rightarrow> user \<Rightarrow> 'e location list" where
  "user_locations db u = filter (\<lambda>l. loc_user_id l = user_id u) (locations_table db)"

section \<open>Parsing the origin\<close>

text \<open>
  \<^verbatim>\<open>s.split(sep, maxsplit)\<close>: cut at the first \<open>maxsplit\<close> occurrences of the
  separator, from the left.
\<close>

fun py_split :: "char \<Rightarrow> nat \<Rightarrow> string \<Rightarrow> string list" where
  "py_split sep 0 s = [s]"
| "py_split sep (Suc n) s =
     (case dropWhile (\<lambda>c. c \<noteq> sep) s of
        [] \<Rightarrow> [s]
      | _ # rest \<Rightarrow> takeWhile (\<lambda>c. c \<noteq> sep) s # py_split sep n rest)"

text \<open>
  \<^verbatim>\<open>float(s)\<close> ignores whitespace around the literal. The characters removed here
  are space, tab, line feed, vertical tab, form feed and carriage return.
\<close>

definition py_whitespace :: "char set" where
  "py_whitespace = {CHR '' '', CHR 0x09, CHR 0x0A, CHR 0x0B, CHR 0x0C, CHR 0x0D}"

definition py_strip :: "string \<Rightarrow> string" where
  "py_strip s =
     rev (dropWhile (\<lambda>c. c \<in> py_whitespace) (rev (dropWhile (\<lambda>c. c \<in> py_whitespace) s)))"

definition py_float :: "('f, 'e) externals \<Rightarrow> string \<Rightarrow> 'f option" where
  "py_float ext s = float_literal ext (py_strip s)"

text \<open>
  \<^verbatim>\<open>parse_lat_lng\<close>: the unpacking \<^verbatim>\<open>lat, lng = origin.split(",", 2)\<close> raises
  \<^verbatim>\<open>ValueError\<close> unless the list has exactly two elements, and so does each
  \<^verbatim>\<open>float\<close>; the handler returns \<^verbatim>\<open>(None, None)\<close>.
\<close>

definition parse_lat_lng ::
  "('f, 'e) externals \<Rightarrow> string \<Rightarrow> 'f option \<times> 'f option" where
  "parse_lat_lng ext origin =
     (case py_split CHR '','' 2 origin of
        [lat, lng] \<Rightarrow>
          (case py_float ext lat of
             None \<Rightarrow> (None, None)
           | Some lat' \<Rightarrow>
               (case py_float ext lng of
                  None \<Rightarrow> (None, None)
                | Some lng' \<Rightarrow> (Some lat', Some lng')))
      | _ \<Rightarrow> (None, None))"

section \<open>The request and its parameters\<close>

text \<open>
  \<^verbatim>\<open>request.args\<close> holds the pairs of the query string in their order;
  \<^verbatim>\<open>get(key)\<close> returns the first value of the key. With \<^verbatim>\<open>type=\<close> the value
  is converted, and a \<^verbatim>\<open>ValueError\<close> of the conversion gives the default.
\<close>

type_synonym args = "(string \<times> string) list"

definition args_get :: "args \<Rightarrow> string \<Rightarrow> string option" where
  "args_get args key = map_of args key"

definition args_get_type :: "(string \<Rightarrow> 'a option) \<Rightarrow> args \<Rightarrow> string \<Rightarrow> 'a option" where
  "args_get_type conv args key =
     (case map_of args key of None \<Rightarrow> None | Some v \<Rightarrow> conv v)"

definition args_get_default_type ::
  "(string \<Rightarrow> 'a option) \<Rightarrow> args \<Rightarrow> string \<Rightarrow> 'a \<Rightarrow> 'a" where
  "args_get_default_type conv args key dflt =
     (case map_of args key of
        None \<Rightarrow> dflt
      | Some v \<Rightarrow> (case conv v of None \<Rightarrow> dflt | Some x \<Rightarrow> x))"

text \<open>Truth value of an optional string: \<^verbatim>\<open>None\<close> and \<^verbatim>\<open>""\<close> are false.\<close>

definition truthy :: "string option \<Rightarrow> bool" where
  "truthy s = (case s of None \<Rightarrow> False | Some v \<Rightarrow> v \<noteq> [])"

section \<open>Queries\<close>

text \<open>
  A query under construction: the criteria given to \<^verbatim>\<open>filter\<close> so far, which the
  database joins by \<^verbatim>\<open>AND\<close>, and the \<^verbatim>\<open>LIMIT\<close> and \<^verbatim>\<open>OFFSET\<close> clauses.
\<close>

datatype error = OverflowError | DatabaseError

record 'e query =
  criteria :: "('e database \<Rightarrow> user \<Rightarrow> bool) list"
  limit_clause :: "int option"
  offset_clause :: "int option"

definition User_query :: "'e query" where
  "User_query = \<lparr>criteria = [], limit_clause = None, offset_clause = None\<rparr>"

definition q_filter :: "'e query \<Rightarrow> ('e database \<Rightarrow> user \<Rightarrow> bool) \<Rightarrow> 'e query" where
  "q_filter q c = q\<lparr>criteria := criteria q @ [c]\<rparr>"

definition q_limit :: "'e query \<Rightarrow> int \<Rightarrow> 'e query" where
  "q_limit q n = q\<lparr>limit_clause := Some n\<rparr>"

definition q_offset :: "'e query \<Rightarrow> int \<Rightarrow> 'e query" where
  "q_offset q n = q\<lparr>offset_clause := Some n\<rparr>"

text \<open>
  PostgreSQL takes the row counts of \<^verbatim>\<open>LIMIT\<close> and \<^verbatim>\<open>OFFSET\<close> as \<^verbatim>\<open>bigint\<close> and
  rejects a negative one (\<^verbatim>\<open>LIMIT must not be negative\<close>); the application does
  not catch the error.
\<close>

definition row_count_ok :: "int option \<Rightarrow> bool" where
  "row_count_ok c = (case c of None \<Rightarrow> True | Some n \<Rightarrow> 0 \<le> n \<and> n < 2 ^ 63)"

definition q_where :: "'e database \<Rightarrow> 'e query \<Rightarrow> user list" where
  "q_where db q = filter (\<lambda>u. list_all (\<lambda>c. c db u) (criteria q)) (users_table db)"

definition q_all :: "'e database \<Rightarrow> 'e query \<Rightarrow> error + user list" where
  "q_all db q =
     (if row_count_ok (limit_clause q) \<and> row_count_ok (offset_clause q) then
        Inr ((case limit_clause q of None \<Rightarrow> (\<lambda>rows. rows) | Some n \<Rightarrow> take (nat n))
              ((case offset_clause q of None \<Rightarrow> (\<lambda>rows. rows) | Some m \<Rightarrow> drop (nat m))
                 (q_where db q)))
      else Inl DatabaseError)"

definition q_count :: "'e database \<Rightarrow> 'e query \<Rightarrow> error + nat" where
  "q_count db q = (case q_all db q of Inl e \<Rightarrow> Inl e | Inr rows \<Rightarrow> Inr (length rows))"

section \<open>The search route\<close>

datatype 'f json =
  JStr string | JInt int | JFloat 'f | JList "'f json list" | JObj "(string \<times> 'f json) list"

record 'f metadata =
  path :: string
  query :: "(string \<times> 'f json) list"

record 'f response =
  metadata :: "'f metadata"
  total_results :: nat
  num_results :: nat
  results :: "'f json list"

type_synonym ('f, 'e) building = "'e query \<times> (string \<times> 'f json) list"

text \<open>The four blocks under \<^verbatim>\<open>Filter based on provided params\<close>.\<close>

definition filter_gender :: "string option \<Rightarrow> ('f, 'e) building \<Rightarrow> ('f, 'e) building" where
  "filter_gender gender b =
     (case b of (q, metadata_query) \<Rightarrow>
        if truthy gender then
          (q_filter q (\<lambda>db u. user_gender u = the gender),
           metadata_query @ [(''gender'', JStr (the gender))])
        else (q, metadata_query))"

definition filter_min_age :: "int option \<Rightarrow> ('f, 'e) building \<Rightarrow> ('f, 'e) building" where
  "filter_min_age min_age b =
     (case b of (q, metadata_query) \<Rightarrow>
        (case min_age of
           Some n \<Rightarrow> (q_filter q (\<lambda>db u. user_age u \<ge> n), metadata_query @ [(''min_age'', JInt n)])
         | None \<Rightarrow> (q, metadata_query)))"

definition filter_max_age :: "int option \<Rightarrow> ('f, 'e) building \<Rightarrow> ('f, 'e) building" where
  "filter_max_age max_age b =
     (case b of (q, metadata_query) \<Rightarrow>
        (case max_age of
           Some n \<Rightarrow> (q_filter q (\<lambda>db u. user_age u \<le> n), metadata_query @ [(''max_age'', JInt n)])
         | None \<Rightarrow> (q, metadata_query)))"

text \<open>\<^verbatim>\<open>User.locations.any(earth_distance(Location.location, pt) < meters)\<close>\<close>

definition any_location_near ::
  "('f, 'e) externals \<Rightarrow> 'e \<Rightarrow> 'f \<Rightarrow> 'e database \<Rightarrow> user \<Rightarrow> bool" where
  "any_location_near ext pt meters db u =
     list_ex (\<lambda>l. float_less ext (earth_distance ext (loc_location l) pt) meters)
       (user_locations db u)"

text \<open>
  The block of the origin (\<open>dist_arg\<close> is the code's \<^verbatim>\<open>dist\<close>).
  \<^verbatim>\<open>parse_lat_lng\<close> returns two floats or two \<^verbatim>\<open>None\<close> (lemma
  \<open>parse_lat_lng_both\<close> below), so the code never reaches the third case.
\<close>

definition filter_origin_dist ::
  "('f, 'e) externals \<Rightarrow> string option \<Rightarrow> int option \<Rightarrow> ('f, 'e) building
     \<Rightarrow> error + ('f, 'e) building" where
  "filter_origin_dist ext origin dist_arg b =
     (case b of (q, metadata_query) \<Rightarrow>
        if truthy origin \<and> dist_arg \<noteq> None then
          (case parse_lat_lng ext (the origin) of
             (None, _) \<Rightarrow> Inr (q, metadata_query)
           | (Some lat, Some lng) \<Rightarrow>
               (let pt = ll_to_earth ext lat lng in
                case int_times_float ext (the dist_arg) (MILE_TO_METER ext) of
                  None \<Rightarrow> Inl OverflowError
                | Some meters \<Rightarrow>
                    Inr (q_filter q (any_location_near ext pt meters),
                         metadata_query @
                           [(''origin'', JStr (the origin)), (''dist'', JInt (the dist_arg))]))
           | (Some lat, None) \<Rightarrow> Inr (q, metadata_query))
        else Inr (q, metadata_query))"

text \<open>The entries of \<^verbatim>\<open>results\<close>.\<close>

definition location_feature :: "('f, 'e) externals \<Rightarrow> 'e location \<Rightarrow> 'f json" where
  "location_feature ext location =
     JObj [(''type'', JStr ''feature''),
           (''properties'', JObj [(''city'', JStr (loc_name location))]),
           (''geometry'',
              JObj [(''type'', JStr ''Point''),
                    (''coordinates'',
                       JList [JFloat (longitude ext (loc_location location)),
                              JFloat (latitude ext (loc_location location))])])]"

definition user_result :: "('f, 'e) externals \<Rightarrow> 'e database \<Rightarrow> user \<Rightarrow> 'f json" where
  "user_result ext db u =
     JObj [(''type'', JStr ''user''),
           (''locationHistory'',
              JObj [(''type'', JStr ''FeatureCollection''),
                    (''features'', JList (map (location_feature ext) (user_locations db u)))]),
           (''properties'',
              JObj [(''id'', JInt (user_id u)),
                    (''name'', JStr (user_name u)),
                    (''age'', JInt (user_age u)),
                    (''gender'', JStr (user_gender u))])]"

text \<open>
  The parameters read from the URL, and the query with its metadata after the four
  filter blocks.
\<close>

record params =
  p_gender :: "string option"
  p_min_age :: "int option"
  p_max_age :: "int option"
  p_origin :: "string option"
  p_dist :: "int option"
  p_limit :: int
  p_start :: int

definition parse_params :: "('f, 'e) externals \<Rightarrow> args \<Rightarrow> params" where
  "parse_params ext args =
     \<lparr>p_gender = args_get args ''gender'',
      p_min_age = args_get_type (py_int ext) args ''min_age'',
      p_max_age = args_get_type (py_int ext) args ''max_age'',
      p_origin = args_get args ''origin'',
      p_dist = args_get_type (py_int ext) args ''dist'',
      p_limit = args_get_default_type (py_int ext) args ''limit'' 5,
      p_start = args_get_default_type (py_int ext) args ''start'' 0\<rparr>"

definition apply_filters :: "('f, 'e) externals \<Rightarrow> params \<Rightarrow> error + ('f, 'e) building" where
  "apply_filters ext p =
     filter_origin_dist ext (p_origin p) (p_dist p)
       (filter_max_age (p_max_age p)
          (filter_min_age (p_min_age p)
             (filter_gender (p_gender p) (User_query, []))))"

definition users :: "('f, 'e) externals \<Rightarrow> 'e database \<Rightarrow> args \<Rightarrow> error + 'f response" where
  "users ext db args =
     (let p = parse_params ext args in
      case apply_filters ext p of
        Inl e \<Rightarrow> Inl e
      | Inr (q, metadata_query) \<Rightarrow>
          (case q_count db q of
             Inl e \<Rightarrow> Inl e
           | Inr total_count \<Rightarrow>
               (let q' = q_offset (q_limit q (p_limit p)) (p_start p);
                    metadata_query' =
                      metadata_query @
                        [(''limit'', JInt (p_limit p)), (''start'', JInt (p_start p))]
                in case q_all db q' of
                     Inl e \<Rightarrow> Inl e
                   | Inr rows \<Rightarrow>
                       (let user_results = map (user_result ext db) rows
                        in Inr \<lparr>metadata = \<lparr>path = ''/users'', query = metadata_query'\<rparr>,
                                total_results = total_count,
                                num_results = length user_results,
                                results = user_results\<rparr>))))"

text \<open>
  The two conditions of the block of the origin under which it goes on to filter:
  \<^verbatim>\<open>origin and dist is not None\<close>, then \<^verbatim>\<open>lat is not None\<close>.
\<close>

definition origin_dist_valid :: "('f, 'e) externals \<Rightarrow> params \<Rightarrow> bool" where
  "origin_dist_valid ext p \<longleftrightarrow>
     truthy (p_origin p) \<and> p_dist p \<noteq> None \<and>
     fst (parse_lat_lng ext (the (p_origin p))) \<noteq> None"

text \<open>
  The result set of a request: the rows that the query of the route selects before
  \<^verbatim>\<open>limit\<close> and \<^verbatim>\<open>offset\<close> are set (lemma \<open>users_Inr\<close> below relates
  the response to it).
\<close>

definition matched_users ::
  "('f, 'e) externals \<Rightarrow> 'e database \<Rightarrow> args \<Rightarrow> error + user list" where
  "matched_users ext db args =
     (case apply_filters ext (parse_params ext args) of
        Inl e \<Rightarrow> Inl e
      | Inr (q, metadata_query) \<Rightarrow> Inr (q_where db q))"

section \<open>The seed loader\<close>










section \<open>Requests with parameters removed\<close>

text \<open>The same request without the parameters named in \<open>ks\<close>.\<close>

definition without :: "string set \<Rightarrow> args \<Rightarrow> args" where
  "without ks args = filter (\<lambda>kv. fst kv \<notin> ks) args"

section \<open>An instance for running the model\<close>

text \<open>
  The theorems hold for all externals. To run the model on concrete requests, this
  instance reads decimal literals, computes with exact rationals and measures
  distance on a grid of degrees (111 km each) in place of the sphere.
\<close>

definition digit_value :: "char \<Rightarrow> nat option" where
  "digit_value c =
     (let n = (of_char c :: nat) in if 48 \<le> n \<and> n \<le> 57 then Some (n - 48) else None)"

fun decimal_digits :: "nat \<Rightarrow> string \<Rightarrow> nat option" where
  "decimal_digits acc [] = Some acc"
| "decimal_digits acc (c # cs) =
     (case digit_value c of None \<Rightarrow> None | Some d \<Rightarrow> decimal_digits (10 * acc + d) cs)"

definition decimal_int :: "string \<Rightarrow> int option" where
  "decimal_int s =
     (case s of
        [] \<Rightarrow> None
      | c # cs \<Rightarrow>
          if c = CHR ''-'' then
            (if cs = [] then None else map_option (\<lambda>n. - int n) (decimal_digits 0 cs))
          else map_option int (decimal_digits 0 s))"

definition decimal_rat :: "string \<Rightarrow> rat option" where
  "decimal_rat s =
     (let negative = (s \<noteq> [] \<and> hd s = CHR ''-'');
          body = (if negative then tl s else s);
          whole = takeWhile (\<lambda>c. c \<noteq> CHR ''.'') body;
          frac = drop (Suc (length whole)) body
      in if whole = [] \<and> frac = [] then None
         else
           (case (decimal_digits 0 whole, decimal_digits 0 frac) of
              (Some w, Some f) \<Rightarrow>
                Some ((if negative then - 1 else 1) *
                      (rat_of_nat w + rat_of_nat f / 10 ^ length frac))
            | _ \<Rightarrow> None))"

definition grid_distance :: "rat \<times> rat \<Rightarrow> rat \<times> rat \<Rightarrow> rat" where
  "grid_distance a b = 111000 * (\<bar>fst a - fst b\<bar> + \<bar>snd a - snd b\<bar>)"

definition example_ext :: "(rat, rat \<times> rat) externals" where
  "example_ext =
     \<lparr>py_int = decimal_int,
      float_literal = decimal_rat,
      float_of_decimal = (\<lambda>r. r),
      int_times_float = (\<lambda>n x. Some (rat_of_int n * x)),
      float_less = (\<lambda>x y. x < y),
      ll_to_earth = (\<lambda>lat lng. (lat, lng)),
      earth_distance = grid_distance,
      latitude = fst,
      longitude = snd\<rparr>"

definition ann :: user where
  "ann = \<lparr>user_id = 1, user_name = ''Ann'', user_age = 34, user_gender = ''f''\<rparr>"

definition bob :: user where
  "bob = \<lparr>user_id = 2, user_name = ''Bob'', user_age = 25, user_gender = ''m''\<rparr>"

definition cyd :: user where
  "cyd = \<lparr>user_id = 3, user_name = ''Cyd'', user_age = 52, user_gender = ''f''\<rparr>"

definition example_db :: "(rat \<times> rat) database" where
  "example_db =
     \<lparr>users_table = [ann, bob, cyd],
      locations_table =
        [\<lparr>loc_id = 1, loc_user_id = 1, loc_name = ''Lima'', loc_location = (-12, -77)\<rparr>,
         \<lparr>loc_id = 2, loc_user_id = 1, loc_name = ''Philadelphia'', loc_location = (40, -75)\<rparr>,
         \<lparr>loc_id = 3, loc_user_id = 2, loc_name = ''Oslo'', loc_location = (60, 11)\<rparr>]\<rparr>"


section \<open>Splitting and stripping\<close>

lemma dropWhile_neq_absent: "sep \<notin> set s \<Longrightarrow> dropWhile (\<lambda>c. c \<noteq> sep) s = []"
  by (induction s) auto

lemma py_split_no_sep: "sep \<notin> set s \<Longrightarrow> py_split sep n s = [s]"
  by (cases n) (simp_all add: dropWhile_neq_absent)

lemma dropWhile_neq_append:
  "sep \<notin> set a \<Longrightarrow> dropWhile (\<lambda>c. c \<noteq> sep) (a @ sep # rest) = sep # rest"
  by (induction a) auto

lemma takeWhile_neq_append:
  "sep \<notin> set a \<Longrightarrow> takeWhile (\<lambda>c. c \<noteq> sep) (a @ sep # rest) = a"
  by (induction a) auto

lemma py_split_at_sep:
  "sep \<notin> set a \<Longrightarrow> py_split sep (Suc n) (a @ sep # rest) = a # py_split sep n rest"
  by (simp add: dropWhile_neq_append takeWhile_neq_append)

lemma length_py_split: "length (py_split sep n s) = Suc (min n (count_list s sep))"
proof (induction n arbitrary: s)
  case 0
  show ?case by simp
next
  case (Suc n)
  show ?case
  proof (cases "sep \<in> set s")
    case False
    then show ?thesis by (simp add: py_split_no_sep count_list_0_iff del: py_split.simps)
  next
    case True
    then obtain a rest where s: "s = a @ sep # rest" and a: "sep \<notin> set a"
      by (meson split_list_first)
    have "count_list a sep = 0" using a by (simp add: count_list_0_iff)
    then show ?thesis
      unfolding s py_split_at_sep [OF a] by (simp add: Suc.IH del: py_split.simps)
  qed
qed

lemma py_strip_leading:
  "set ws \<subseteq> py_whitespace \<Longrightarrow> py_strip (ws @ s) = py_strip s"
  by (induction ws) (simp_all add: py_strip_def)

lemma parse_lat_lng_both:
  "parse_lat_lng ext origin = (None, None) \<or>
   (\<exists>a b. parse_lat_lng ext origin = (Some a, Some b))"
  by (simp add: parse_lat_lng_def split: list.splits option.splits)

lemma parse_lat_lng_fields:
  assumes "CHR '','' \<notin> set lat" and "CHR '','' \<notin> set lng"
  shows "parse_lat_lng ext (lat @ CHR '','' # lng) =
    (case (py_float ext lat, py_float ext lng) of
       (Some a, Some b) \<Rightarrow> (Some a, Some b) | _ \<Rightarrow> (None, None))"
proof -
  have "py_split CHR '','' 2 (lat @ CHR '','' # lng) = [lat, lng]"
    using assms by (simp add: numeral_2_eq_2 py_split_at_sep py_split_no_sep del: py_split.simps)
  then show ?thesis
    by (simp add: parse_lat_lng_def split: option.splits)
qed

lemma parse_lat_lng_count:
  assumes "count_list origin CHR '','' \<noteq> 1"
  shows "parse_lat_lng ext origin = (None, None)"
proof -
  have "length (py_split CHR '','' 2 origin) \<noteq> 2"
    using assms by (simp add: length_py_split min_def)
  then show ?thesis
    by (auto simp: parse_lat_lng_def split: list.splits)
qed

section \<open>Queries and filter blocks\<close>

lemma q_where_User_query: "q_where db User_query = users_table db"
  by (simp add: q_where_def User_query_def)

lemma q_where_q_filter: "q_where db (q_filter q c) = filter (c db) (q_where db q)"
  by (simp add: q_where_def q_filter_def conj_commute)

lemma clauses_q_filter:
  "limit_clause (q_filter q c) = limit_clause q" "offset_clause (q_filter q c) = offset_clause q"
  by (simp_all add: q_filter_def)

lemma clauses_User_query: "limit_clause User_query = None" "offset_clause User_query = None"
  by (simp_all add: User_query_def)

lemma q_where_paginated: "q_where db (q_offset (q_limit q l) s) = q_where db q"
  by (simp add: q_where_def q_offset_def q_limit_def)

lemma q_all_paginated:
  "q_all db (q_offset (q_limit q l) s) =
     (if 0 \<le> l \<and> l < 2 ^ 63 \<and> 0 \<le> s \<and> s < 2 ^ 63
      then Inr (take (nat l) (drop (nat s) (q_where db q))) else Inl DatabaseError)"
  by (simp add: q_all_def q_where_paginated) (simp add: q_offset_def q_limit_def row_count_ok_def)

lemma q_count_unpaginated:
  "limit_clause q = None \<Longrightarrow> offset_clause q = None \<Longrightarrow> q_count db q = Inr (length (q_where db q))"
  by (simp add: q_count_def q_all_def row_count_ok_def)

text \<open>The three unconditional blocks.\<close>

lemma filter_gender_q:
  "filter_gender g (q, mq) = (q', mq') \<Longrightarrow>
   limit_clause q' = limit_clause q \<and> offset_clause q' = offset_clause q \<and>
   q_where db q' = filter (\<lambda>u. truthy g \<longrightarrow> user_gender u = the g) (q_where db q) \<and>
   mq' = mq @ (if truthy g then [(''gender'', JStr (the g))] else [])"
  by (auto simp: filter_gender_def q_where_q_filter clauses_q_filter split: if_splits)

lemma filter_min_age_q:
  "filter_min_age a (q, mq) = (q', mq') \<Longrightarrow>
   limit_clause q' = limit_clause q \<and> offset_clause q' = offset_clause q \<and>
   q_where db q' = filter (\<lambda>u. \<forall>n. a = Some n \<longrightarrow> n \<le> user_age u) (q_where db q) \<and>
   mq' = mq @ (case a of Some n \<Rightarrow> [(''min_age'', JInt n)] | None \<Rightarrow> [])"
  by (auto simp: filter_min_age_def q_where_q_filter clauses_q_filter split: option.splits)

lemma filter_max_age_q:
  "filter_max_age a (q, mq) = (q', mq') \<Longrightarrow>
   limit_clause q' = limit_clause q \<and> offset_clause q' = offset_clause q \<and>
   q_where db q' = filter (\<lambda>u. \<forall>n. a = Some n \<longrightarrow> user_age u \<le> n) (q_where db q) \<and>
   mq' = mq @ (case a of Some n \<Rightarrow> [(''max_age'', JInt n)] | None \<Rightarrow> [])"
  by (auto simp: filter_max_age_def q_where_q_filter clauses_q_filter split: option.splits)

text \<open>The outcome of the block of the origin, by cases.\<close>

lemma filter_origin_dist_skipped:
  assumes "\<not> truthy origin \<or> d = None \<or> fst (parse_lat_lng ext (the origin)) = None"
  shows "filter_origin_dist ext origin d b = Inr b"
  using assms parse_lat_lng_both [of ext "the origin"]
  by (cases b) (auto simp: filter_origin_dist_def split: option.splits)

lemma filter_origin_dist_applied:
  assumes "origin \<noteq> []" and "parse_lat_lng ext origin = (Some lat, Some lng)"
  shows "filter_origin_dist ext (Some origin) (Some d) (q, mq) =
    (case int_times_float ext d (MILE_TO_METER ext) of
       None \<Rightarrow> Inl OverflowError
     | Some meters \<Rightarrow>
         Inr (q_filter q (any_location_near ext (ll_to_earth ext lat lng) meters),
              mq @ [(''origin'', JStr origin), (''dist'', JInt d)]))"
  using assms by (simp add: filter_origin_dist_def truthy_def split: option.splits)

lemma filter_origin_dist_cases:
  obtains (skipped) "filter_origin_dist ext origin d b = Inr b"
      and "\<not> truthy origin \<or> d = None \<or> fst (parse_lat_lng ext (the origin)) = None"
  | (applied) v n lat lng where "origin = Some v" and "v \<noteq> []" and "d = Some n"
      and "parse_lat_lng ext v = (Some lat, Some lng)"
proof (cases "\<not> truthy origin \<or> d = None \<or> fst (parse_lat_lng ext (the origin)) = None")
  case True
  then show ?thesis using filter_origin_dist_skipped skipped by blast
next
  case False
  then obtain v n where v: "origin = Some v" "v \<noteq> []" "d = Some n"
    by (auto simp: truthy_def split: option.splits)
  with False parse_lat_lng_both [of ext v] obtain lat lng
    where "parse_lat_lng ext v = (Some lat, Some lng)" by auto
  with v show ?thesis using applied by blast
qed

lemma three_filters:
  fixes q :: "'e query" and mq :: "(string \<times> 'f json) list"
  assumes "filter_max_age hi (filter_min_age lo (filter_gender g (User_query, []))) = (q, mq)"
  shows "limit_clause q = None" and "offset_clause q = None"
    and "q_where db q =
      filter (\<lambda>u. (truthy g \<longrightarrow> user_gender u = the g) \<and>
                  (\<forall>n. lo = Some n \<longrightarrow> n \<le> user_age u) \<and>
                  (\<forall>n. hi = Some n \<longrightarrow> user_age u \<le> n)) (users_table db)"
    and "mq = (if truthy g then [(''gender'', JStr (the g))] else []) @
              (case lo of Some n \<Rightarrow> [(''min_age'', JInt n)] | None \<Rightarrow> []) @
              (case hi of Some n \<Rightarrow> [(''max_age'', JInt n)] | None \<Rightarrow> [])"
proof -
  obtain q1 :: "'e query" and mq1 :: "(string \<times> 'f json) list"
    where b1: "filter_gender g (User_query, []) = (q1, mq1)" by force
  obtain q2 mq2 where b2: "filter_min_age lo (q1, mq1) = (q2, mq2)" by force
  have b3: "filter_max_age hi (q2, mq2) = (q, mq)" using assms b1 b2 by simp
  note f1 = filter_gender_q [OF b1, of db]
  note f2 = filter_min_age_q [OF b2, of db]
  note f3 = filter_max_age_q [OF b3, of db]
  show "limit_clause q = None" using f1 f2 f3 by (simp add: clauses_User_query)
  show "offset_clause q = None" using f1 f2 f3 by (simp add: clauses_User_query)
  show "q_where db q =
      filter (\<lambda>u. (truthy g \<longrightarrow> user_gender u = the g) \<and>
                  (\<forall>n. lo = Some n \<longrightarrow> n \<le> user_age u) \<and>
                  (\<forall>n. hi = Some n \<longrightarrow> user_age u \<le> n)) (users_table db)"
    using f1 f2 f3 by (simp add: q_where_User_query conj_ac)
  show "mq = (if truthy g then [(''gender'', JStr (the g))] else []) @
              (case lo of Some n \<Rightarrow> [(''min_age'', JInt n)] | None \<Rightarrow> []) @
              (case hi of Some n \<Rightarrow> [(''max_age'', JInt n)] | None \<Rightarrow> [])"
    using f1 f2 f3 by simp
qed

section \<open>The response and the result set\<close>

lemma apply_filters_base:
  fixes ext :: "('f, 'e) externals"
  obtains q0 :: "'e query" and mq0 :: "(string \<times> 'f json) list" where
    "filter_max_age (p_max_age p) (filter_min_age (p_min_age p)
       (filter_gender (p_gender p) (User_query, []))) = (q0, mq0)"
    and "apply_filters ext p = filter_origin_dist ext (p_origin p) (p_dist p) (q0, mq0)"
  by (metis apply_filters_def surj_pair)

lemma apply_filters_clauses:
  assumes "apply_filters ext p = Inr (q, mq)"
  shows "limit_clause q = None \<and> offset_clause q = None"
proof -
  obtain q0 mq0 where
    b: "filter_max_age (p_max_age p) (filter_min_age (p_min_age p)
       (filter_gender (p_gender p) (User_query, []))) = (q0, mq0)"
    and a: "apply_filters ext p = filter_origin_dist ext (p_origin p) (p_dist p) (q0, mq0)"
    by (rule apply_filters_base)
  have c0: "limit_clause q0 = None \<and> offset_clause q0 = None"
    using three_filters(1,2) [OF b] by simp
  show ?thesis
  proof (cases rule: filter_origin_dist_cases [of ext "p_origin p" "p_dist p" "(q0, mq0)"])
    case skipped
    then show ?thesis using assms a c0 by simp
  next
    case (applied v n lat lng)
    then show ?thesis
      using assms a c0
      by (auto simp: filter_origin_dist_applied clauses_q_filter split: option.splits)
  qed
qed

text \<open>The response, from the result set.\<close>

lemma users_Inr:
  assumes "users ext db args = Inr r"
  obtains q mq rows where
    "apply_filters ext (parse_params ext args) = Inr (q, mq)"
    and "matched_users ext db args = Inr rows"
    and "0 \<le> p_limit (parse_params ext args)" and "0 \<le> p_start (parse_params ext args)"
    and "r = \<lparr>metadata = \<lparr>path = ''/users'',
               query = mq @ [(''limit'', JInt (p_limit (parse_params ext args))),
                             (''start'', JInt (p_start (parse_params ext args)))]\<rparr>,
             total_results = length rows,
             num_results = length (take (nat (p_limit (parse_params ext args)))
                                     (drop (nat (p_start (parse_params ext args))) rows)),
             results = map (user_result ext db)
                         (take (nat (p_limit (parse_params ext args)))
                            (drop (nat (p_start (parse_params ext args))) rows))\<rparr>"
proof -
  obtain q mq where a: "apply_filters ext (parse_params ext args) = Inr (q, mq)"
    using assms by (auto simp: users_def Let_def split: sum.splits)
  have c: "q_count db q = Inr (length (q_where db q))"
    using apply_filters_clauses [OF a] by (simp add: q_count_unpaginated)
  have m: "matched_users ext db args = Inr (q_where db q)"
    using a by (simp add: matched_users_def)
  show ?thesis
    using assms a c m
    by (intro that [of q mq "q_where db q"])
       (auto simp: users_def Let_def q_all_paginated split: if_splits)
qed

lemma users_eq_matched:
  "users ext db args =
     (case apply_filters ext (parse_params ext args) of
        Inl e \<Rightarrow> Inl e
      | Inr (q, mq) \<Rightarrow>
          (let l = p_limit (parse_params ext args); s = p_start (parse_params ext args)
           in if 0 \<le> l \<and> l < 2 ^ 63 \<and> 0 \<le> s \<and> s < 2 ^ 63 then
                Inr \<lparr>metadata = \<lparr>path = ''/users'',
                       query = mq @ [(''limit'', JInt l), (''start'', JInt s)]\<rparr>,
                     total_results = length (q_where db q),
                     num_results = length (take (nat l) (drop (nat s) (q_where db q))),
                     results = map (user_result ext db)
                                 (take (nat l) (drop (nat s) (q_where db q)))\<rparr>
              else Inl DatabaseError))"
proof (cases "apply_filters ext (parse_params ext args)")
  case (Inl e)
  then show ?thesis by (simp add: users_def)
next
  case (Inr b)
  obtain q mq where b: "b = (q, mq)" by (cases b)
  have c: "q_count db q = Inr (length (q_where db q))"
    using apply_filters_clauses [of ext "parse_params ext args" q mq] Inr b
    by (simp add: q_count_unpaginated)
  show ?thesis
    using Inr b c by (simp add: users_def Let_def q_all_paginated)
qed

text \<open>Removing parameters from a request.\<close>

lemma map_of_without: "map_of (without ks args) k = (if k \<in> ks then None else map_of args k)"
  by (induction args) (auto simp: without_def)

lemma parse_params_without_origin_dist:
  "parse_params ext (without {''origin'', ''dist''} args) =
     (parse_params ext args)\<lparr>p_origin := None, p_dist := None\<rparr>"
  by (simp add: parse_params_def args_get_def args_get_type_def args_get_default_type_def
      map_of_without)

lemma users_cong:
  assumes "apply_filters ext (parse_params ext args) = apply_filters ext (parse_params ext args')"
    and "p_limit (parse_params ext args) = p_limit (parse_params ext args')"
    and "p_start (parse_params ext args) = p_start (parse_params ext args')"
  shows "users ext db args = users ext db args'"
  unfolding users_def Let_def assms by (rule refl)

lemma matched_users_cong:
  assumes "apply_filters ext (parse_params ext args) = apply_filters ext (parse_params ext args')"
  shows "matched_users ext db args = matched_users ext db args'"
  using assms by (simp add: matched_users_def)

lemma apply_filters_no_origin_dist:
  "apply_filters ext (p\<lparr>p_origin := None, p_dist := None\<rparr>) =
     Inr (filter_max_age (p_max_age p) (filter_min_age (p_min_age p)
            (filter_gender (p_gender p) (User_query, []))))"
  by (simp add: apply_filters_def filter_origin_dist_skipped truthy_def)

lemma apply_filters_skipped:
  assumes "\<not> truthy (p_origin p) \<or> p_dist p = None \<or>
           fst (parse_lat_lng ext (the (p_origin p))) = None"
  shows "apply_filters ext p = apply_filters ext (p\<lparr>p_origin := None, p_dist := None\<rparr>)"
  using assms by (simp add: apply_filters_no_origin_dist)
     (simp add: apply_filters_def filter_origin_dist_skipped)


lemma apply_filters_Inr:
  assumes "apply_filters ext p = Inr (q, mq)"
  shows "mq =
      (if truthy (p_gender p) then [(''gender'', JStr (the (p_gender p)))] else []) @
      (case p_min_age p of Some n \<Rightarrow> [(''min_age'', JInt n)] | None \<Rightarrow> []) @
      (case p_max_age p of Some n \<Rightarrow> [(''max_age'', JInt n)] | None \<Rightarrow> []) @
      (if origin_dist_valid ext p
       then [(''origin'', JStr (the (p_origin p))), (''dist'', JInt (the (p_dist p)))] else [])"
    (is "mq = ?mq")
  and "q_where db q =
      filter (\<lambda>u. (truthy (p_gender p) \<longrightarrow> user_gender u = the (p_gender p)) \<and>
                  (\<forall>n. p_min_age p = Some n \<longrightarrow> n \<le> user_age u) \<and>
                  (\<forall>n. p_max_age p = Some n \<longrightarrow> user_age u \<le> n) \<and>
                  (origin_dist_valid ext p \<longrightarrow>
                     (\<exists>lat lng meters.
                        parse_lat_lng ext (the (p_origin p)) = (Some lat, Some lng) \<and>
                        int_times_float ext (the (p_dist p)) (MILE_TO_METER ext) = Some meters \<and>
                        any_location_near ext (ll_to_earth ext lat lng) meters db u)))
        (users_table db)"
    (is "_ = filter ?P _")
proof -
  obtain q0 mq0 where
    b: "filter_max_age (p_max_age p) (filter_min_age (p_min_age p)
       (filter_gender (p_gender p) (User_query, []))) = (q0, mq0)"
    and a: "apply_filters ext p = filter_origin_dist ext (p_origin p) (p_dist p) (q0, mq0)"
    by (rule apply_filters_base)
  note w0 = three_filters(3) [OF b, of db]
  note m0 = three_filters(4) [OF b]
  have "mq = ?mq \<and> q_where db q = filter ?P (users_table db)"
  proof (cases rule: filter_origin_dist_cases [of ext "p_origin p" "p_dist p" "(q0, mq0)"])
    case skipped
    then have "\<not> origin_dist_valid ext p" by (auto simp: origin_dist_valid_def)
    moreover have "q = q0" "mq = mq0" using skipped(1) a assms by simp_all
    ultimately show ?thesis using w0 m0 by simp
  next
    case (applied v n lat lng)
    then have valid: "origin_dist_valid ext p"
      by (simp add: origin_dist_valid_def truthy_def)
    from applied a assms obtain meters where
      m: "int_times_float ext n (MILE_TO_METER ext) = Some meters"
      and q: "q = q_filter q0 (any_location_near ext (ll_to_earth ext lat lng) meters)"
      and mq: "mq = mq0 @ [(''origin'', JStr v), (''dist'', JInt n)]"
      by (auto simp: filter_origin_dist_applied split: option.splits)
    have "mq = ?mq" using mq m0 valid applied by simp
    moreover have "q_where db q = filter ?P (users_table db)"
      unfolding q q_where_q_filter w0 filter_filter
      using valid applied m by (intro filter_cong refl) auto
    ultimately show ?thesis by simp
  qed
  then show "mq = ?mq" and "q_where db q = filter ?P (users_table db)" by simp_all
qed

lemma parse_params_without_gender:
  "parse_params ext (without {''gender''} args) = (parse_params ext args)\<lparr>p_gender := None\<rparr>"
  by (simp add: parse_params_def args_get_def args_get_type_def args_get_default_type_def
      map_of_without)

lemma filter_gender_falsy: "\<not> truthy g \<Longrightarrow> filter_gender g b = b"
  by (cases b) (simp add: filter_gender_def)

lemma apply_filters_gender_falsy:
  assumes "\<not> truthy (p_gender p)"
  shows "apply_filters ext p = apply_filters ext (p\<lparr>p_gender := None\<rparr>)"
  using assms by (simp add: apply_filters_def filter_gender_falsy truthy_def)

lemma users_metadata_query:
  assumes "users ext db args = Inr r"
  shows "query (metadata r) =
      (if truthy (p_gender (parse_params ext args))
       then [(''gender'', JStr (the (p_gender (parse_params ext args))))] else []) @
      (case p_min_age (parse_params ext args) of
         Some n \<Rightarrow> [(''min_age'', JInt n)] | None \<Rightarrow> []) @
      (case p_max_age (parse_params ext args) of
         Some n \<Rightarrow> [(''max_age'', JInt n)] | None \<Rightarrow> []) @
      (if origin_dist_valid ext (parse_params ext args)
       then [(''origin'', JStr (the (p_origin (parse_params ext args)))),
             (''dist'', JInt (the (p_dist (parse_params ext args))))] else []) @
      [(''limit'', JInt (p_limit (parse_params ext args))),
       (''start'', JInt (p_start (parse_params ext args)))]"
proof -
  from assms obtain q mq where
    f: "apply_filters ext (parse_params ext args) = Inr (q, mq)"
    and r: "query (metadata r) = mq @ [(''limit'', JInt (p_limit (parse_params ext args))),
                                        (''start'', JInt (p_start (parse_params ext args)))]"
    by (rule users_Inr) simp
  show ?thesis
    unfolding r by (subst apply_filters_Inr(1) [OF f]) simp
qed

lemma apply_filters_cong:
  assumes "p_gender p = p_gender p'" and "p_min_age p = p_min_age p'"
    and "p_max_age p = p_max_age p'" and "p_origin p = p_origin p'" and "p_dist p = p_dist p'"
  shows "apply_filters ext p = apply_filters ext p'"
  using assms by (simp add: apply_filters_def)

lemma q_where_criteria_set:
  "set cs = set (criteria q) \<Longrightarrow> q_where db (q\<lparr>criteria := cs\<rparr>) = q_where db q"
  by (simp add: q_where_def list_all_iff)



section \<open>The loop of the seed loader\<close>






section \<open>Running requests on the instance\<close>

lemmas run_request =
  users_eq_matched parse_params_def args_get_def args_get_type_def args_get_default_type_def
  apply_filters_def filter_gender_def filter_min_age_def filter_max_age_def
  filter_origin_dist_def truthy_def example_ext_def decimal_int_def digit_value_def

section \<open>The claims\<close>

subsection \<open>Distance filter: any location within the distance\<close>



subsection \<open>Parsing the origin\<close>

text \<open>
  C2. For a string \<open>lat,lng\<close> of two numeric literals, with optional whitespace after
  the comma, \<^verbatim>\<open>parse_lat_lng\<close> returns the pair of their values as floats. For an
  input that does not have exactly two comma-separated fields (the number of commas is
  not one), or that has a field that is not numeric, it returns \<^verbatim>\<open>(None, None)\<close>.
  A numeric literal is a string that \<^verbatim>\<open>float\<close> accepts.
\<close>

theorem parse_lat_lng_valid_and_invalid:
  "(CHR '','' \<notin> set lat \<and> CHR '','' \<notin> set lng \<and> set ws \<subseteq> py_whitespace \<and>
      py_float ext lat = Some a \<and> py_float ext lng = Some b \<longrightarrow>
      parse_lat_lng ext (lat @ CHR '','' # ws @ lng) = (Some a, Some b)) \<and>
   (count_list origin CHR '','' \<noteq> 1 \<longrightarrow> parse_lat_lng ext origin = (None, None)) \<and>
   (CHR '','' \<notin> set lat' \<and> CHR '','' \<notin> set lng' \<and>
      (py_float ext lat' = None \<or> py_float ext lng' = None) \<longrightarrow>
      parse_lat_lng ext (lat' @ CHR '','' # lng') = (None, None))"
proof (intro conjI impI)
  assume h: "CHR '','' \<notin> set lat \<and> CHR '','' \<notin> set lng \<and> set ws \<subseteq> py_whitespace \<and>
      py_float ext lat = Some a \<and> py_float ext lng = Some b"
  then have ws: "CHR '','' \<notin> set ws"
    by (auto simp: py_whitespace_def)
  have "py_float ext (ws @ lng) = Some b"
    using h by (simp add: py_float_def py_strip_leading)
  then show "parse_lat_lng ext (lat @ CHR '','' # ws @ lng) = (Some a, Some b)"
    using h ws by (simp add: parse_lat_lng_fields)
next
  assume "count_list origin CHR '','' \<noteq> 1"
  then show "parse_lat_lng ext origin = (None, None)"
    by (rule parse_lat_lng_count)
next
  assume "CHR '','' \<notin> set lat' \<and> CHR '','' \<notin> set lng' \<and>
      (py_float ext lat' = None \<or> py_float ext lng' = None)"
  then show "parse_lat_lng ext (lat' @ CHR '','' # lng') = (None, None)"
    by (auto simp: parse_lat_lng_fields split: option.splits)
qed

theorem parse_lat_lng_valid_and_invalid_witness:
  "parse_lat_lng example_ext ''50.5, 110.2'' = (Some (101 / 2), Some (551 / 5)) \<and>
   parse_lat_lng example_ext ''50.5,110.2,99'' = (None, None) \<and>
   parse_lat_lng example_ext ''50.5,nope'' = (None, None)"
proof -
  have h1: "CHR '','' \<notin> set ''50.5'' \<and> CHR '','' \<notin> set ''110.2'' \<and>
      set '' '' \<subseteq> py_whitespace \<and>
      py_float example_ext ''50.5'' = Some (101 / 2) \<and>
      py_float example_ext ''110.2'' = Some (551 / 5)"
    by (simp add: py_whitespace_def py_float_def py_strip_def example_ext_def
        decimal_rat_def digit_value_def Let_def)
  have h2: "count_list ''50.5,110.2,99'' CHR '','' \<noteq> 1"
    by simp
  have h3: "CHR '','' \<notin> set ''50.5'' \<and> CHR '','' \<notin> set ''nope'' \<and>
      (py_float example_ext ''50.5'' = None \<or> py_float example_ext ''nope'' = None)"
    by (simp add: py_whitespace_def py_float_def py_strip_def example_ext_def
        decimal_rat_def digit_value_def Let_def)
  show ?thesis
    using h1 h2 h3
      parse_lat_lng_valid_and_invalid [of "''50.5''" "''110.2''" "'' ''" example_ext
        "101 / 2" "551 / 5" "''50.5,110.2,99''" "''50.5''" "''nope''"]
    by simp
qed

subsection \<open>Totals and pagination\<close>

text \<open>
  C3. In every response, \<open>total_results\<close> is the number of users matching the filters
  before \<open>limit\<close> and \<open>offset\<close> are applied, \<open>num_results\<close> is at most
  \<open>total_results\<close> and at most the effective limit, and a request that differs only
  in \<open>limit\<close> and \<open>start\<close> has the same \<open>total_results\<close>.
\<close>

theorem total_results_before_pagination:
  assumes "users ext db args = Inr r"
  shows "(\<exists>rows. matched_users ext db args = Inr rows \<and> total_results r = length rows) \<and>
         num_results r \<le> total_results r \<and>
         int (num_results r) \<le> p_limit (parse_params ext args) \<and>
         (\<forall>args' r'.
            (\<forall>k. k \<noteq> ''limit'' \<and> k \<noteq> ''start'' \<longrightarrow> args_get args' k = args_get args k) \<and>
            users ext db args' = Inr r' \<longrightarrow> total_results r' = total_results r)"
proof -
  let ?p = "parse_params ext args"
  from assms obtain rows where
    m: "matched_users ext db args = Inr rows"
    and l: "0 \<le> p_limit ?p"
    and t: "total_results r = length rows"
    and n: "num_results r = length (take (nat (p_limit ?p)) (drop (nat (p_start ?p)) rows))"
    by (rule users_Inr) simp
  have "total_results r' = total_results r"
    if same: "\<forall>k. k \<noteq> ''limit'' \<and> k \<noteq> ''start'' \<longrightarrow> args_get args' k = args_get args k"
      and r': "users ext db args' = Inr r'" for args' r'
  proof -
    have "apply_filters ext (parse_params ext args') = apply_filters ext ?p"
      using same
      by (intro apply_filters_cong)
         (simp_all add: parse_params_def args_get_def args_get_type_def)
    then have "matched_users ext db args' = Inr rows"
      using m by (simp add: matched_users_def)
    moreover from r' obtain rows' where "matched_users ext db args' = Inr rows'"
      and "total_results r' = length rows'"
      by (rule users_Inr) simp
    ultimately show ?thesis using t by simp
  qed
  moreover have "num_results r \<le> total_results r" using n t by simp
  moreover have "int (num_results r) \<le> p_limit ?p" using n l by simp
  ultimately show ?thesis using m t by blast
qed

theorem total_results_before_pagination_witness:
  "\<exists>r r'. users example_ext example_db [(''gender'', ''f''), (''limit'', ''1'')] = Inr r \<and>
     users example_ext example_db [(''gender'', ''f''), (''limit'', ''2''), (''start'', ''1'')] =
       Inr r' \<and>
     total_results r = 2 \<and> total_results r' = 2 \<and> num_results r \<le> 1"
proof -
  let ?args = "[(''gender'', ''f''), (''limit'', ''1'')]"
  let ?args' = "[(''gender'', ''f''), (''limit'', ''2''), (''start'', ''1'')]"
  obtain r where r: "users example_ext example_db ?args = Inr r"
    by (simp add: run_request)
  obtain r' where r': "users example_ext example_db ?args' = Inr r'"
    by (simp add: run_request)
  have m: "matched_users example_ext example_db ?args = Inr [ann, cyd]"
    by code_simp
  have l: "p_limit (parse_params example_ext ?args) = 1"
    by code_simp
  have same: "\<forall>k. k \<noteq> ''limit'' \<and> k \<noteq> ''start'' \<longrightarrow> args_get ?args' k = args_get ?args k"
    by (simp add: args_get_def)
  note t = total_results_before_pagination [OF r]
  have "total_results r = 2" using t m by auto
  moreover have "total_results r' = total_results r" using t same r' by blast
  moreover have "num_results r \<le> 1" using t l by simp
  ultimately show ?thesis using r r' by simp
qed

subsection \<open>Filters compose by conjunction\<close>

text \<open>
  C4. The filters that were parsed compose by conjunction: the result set is the list of
  the users that satisfy every applied predicate. A request with
  \<^verbatim>\<open>gender=f&min_age=30&max_age=40\<close> returns only users of gender \<^verbatim>\<open>f\<close> with an age
  from 30 to 40. The rows that a query selects do not depend on the order in which its
  criteria were given.
\<close>

theorem filters_compose_conjunctively:
  "(\<forall>rows. matched_users ext db args = Inr rows \<longrightarrow>
      rows = filter
        (\<lambda>u. (truthy (p_gender (parse_params ext args)) \<longrightarrow>
                 user_gender u = the (p_gender (parse_params ext args))) \<and>
              (\<forall>n. p_min_age (parse_params ext args) = Some n \<longrightarrow> n \<le> user_age u) \<and>
              (\<forall>n. p_max_age (parse_params ext args) = Some n \<longrightarrow> user_age u \<le> n) \<and>
              (origin_dist_valid ext (parse_params ext args) \<longrightarrow>
                 (\<exists>lat lng meters.
                    parse_lat_lng ext (the (p_origin (parse_params ext args))) =
                      (Some lat, Some lng) \<and>
                    int_times_float ext (the (p_dist (parse_params ext args)))
                      (MILE_TO_METER ext) = Some meters \<and>
                    any_location_near ext (ll_to_earth ext lat lng) meters db u)))
        (users_table db)) \<and>
   (\<forall>r. users ext db args = Inr r \<and>
        args_get args ''gender'' = Some ''f'' \<and>
        args_get_type (py_int ext) args ''min_age'' = Some 30 \<and>
        args_get_type (py_int ext) args ''max_age'' = Some 40 \<longrightarrow>
        (\<exists>page. results r = map (user_result ext db) page \<and>
           (\<forall>u \<in> set page. user_gender u = ''f'' \<and> 30 \<le> user_age u \<and> user_age u \<le> 40))) \<and>
   (\<forall>q cs. set cs = set (criteria q) \<longrightarrow>
        q_where db (q\<lparr>criteria := cs\<rparr>) = q_where db q \<and>
        q_all db (q\<lparr>criteria := cs\<rparr>) = q_all db q \<and>
        q_count db (q\<lparr>criteria := cs\<rparr>) = q_count db q)"
proof (intro conjI allI impI)
  fix rows
  assume "matched_users ext db args = Inr rows"
  then obtain q mq where f: "apply_filters ext (parse_params ext args) = Inr (q, mq)"
    and rows: "rows = q_where db q"
    by (auto simp: matched_users_def split: sum.splits)
  show "rows = filter
        (\<lambda>u. (truthy (p_gender (parse_params ext args)) \<longrightarrow>
                 user_gender u = the (p_gender (parse_params ext args))) \<and>
              (\<forall>n. p_min_age (parse_params ext args) = Some n \<longrightarrow> n \<le> user_age u) \<and>
              (\<forall>n. p_max_age (parse_params ext args) = Some n \<longrightarrow> user_age u \<le> n) \<and>
              (origin_dist_valid ext (parse_params ext args) \<longrightarrow>
                 (\<exists>lat lng meters.
                    parse_lat_lng ext (the (p_origin (parse_params ext args))) =
                      (Some lat, Some lng) \<and>
                    int_times_float ext (the (p_dist (parse_params ext args)))
                      (MILE_TO_METER ext) = Some meters \<and>
                    any_location_near ext (ll_to_earth ext lat lng) meters db u)))
        (users_table db)"
    unfolding rows by (rule apply_filters_Inr(2) [OF f])
next
  fix r
  let ?p = "parse_params ext args"
  assume h: "users ext db args = Inr r \<and>
        args_get args ''gender'' = Some ''f'' \<and>
        args_get_type (py_int ext) args ''min_age'' = Some 30 \<and>
        args_get_type (py_int ext) args ''max_age'' = Some 40"
  then have p: "p_gender ?p = Some ''f''" "p_min_age ?p = Some 30" "p_max_age ?p = Some 40"
    by (simp_all add: parse_params_def)
  from h obtain q mq rows where
    f: "apply_filters ext ?p = Inr (q, mq)"
    and m: "matched_users ext db args = Inr rows"
    and res: "results r = map (user_result ext db)
                (take (nat (p_limit ?p)) (drop (nat (p_start ?p)) rows))"
    by (auto elim: users_Inr)
  have rows: "rows = q_where db q"
    using f m by (simp add: matched_users_def)
  have "user_gender u = ''f'' \<and> 30 \<le> user_age u \<and> user_age u \<le> 40"
    if "u \<in> set (take (nat (p_limit ?p)) (drop (nat (p_start ?p)) rows))" for u
  proof -
    have "u \<in> set rows" using that by (meson in_set_dropD in_set_takeD)
    then show ?thesis
      unfolding rows apply_filters_Inr(2) [OF f] by (simp add: p truthy_def)
  qed
  then show "\<exists>page. results r = map (user_result ext db) page \<and>
           (\<forall>u \<in> set page. user_gender u = ''f'' \<and> 30 \<le> user_age u \<and> user_age u \<le> 40)"
    using res by blast
next
  fix q :: "'b query" and cs
  assume cs: "set cs = set (criteria q)"
  show "q_where db (q\<lparr>criteria := cs\<rparr>) = q_where db q"
    using cs by (rule q_where_criteria_set)
  then show "q_all db (q\<lparr>criteria := cs\<rparr>) = q_all db q"
    by (simp add: q_all_def)
  then show "q_count db (q\<lparr>criteria := cs\<rparr>) = q_count db q"
    by (simp add: q_count_def)
qed

theorem filters_compose_conjunctively_witness:
  "matched_users example_ext example_db
     [(''gender'', ''f''), (''min_age'', ''30''), (''max_age'', ''40'')] = Inr [ann] \<and>
   (\<exists>r page. users example_ext example_db
        [(''gender'', ''f''), (''min_age'', ''30''), (''max_age'', ''40'')] = Inr r \<and>
      results r = map (user_result example_ext example_db) page \<and> length page = 1) \<and>
   q_where example_db
     (q_filter (q_filter User_query (\<lambda>db u. user_gender u = ''f'')) (\<lambda>db u. 30 \<le> user_age u)
        \<lparr>criteria := [\<lambda>db u. 30 \<le> user_age u, \<lambda>db u. user_gender u = ''f'']\<rparr>) = [ann, cyd]"
proof -
  let ?args = "[(''gender'', ''f''), (''min_age'', ''30''), (''max_age'', ''40'')]"
  let ?q = "q_filter (q_filter User_query (\<lambda>db u. user_gender u = ''f''))
              (\<lambda>db u. 30 \<le> user_age u) :: (rat \<times> rat) query"
  let ?cs = "[\<lambda>db u. 30 \<le> user_age u, \<lambda>db u. user_gender u = ''f'']
              :: ((rat \<times> rat) database \<Rightarrow> user \<Rightarrow> bool) list"
  note t = filters_compose_conjunctively [of example_ext example_db ?args]
  obtain rows where m: "matched_users example_ext example_db ?args = Inr rows"
    by (simp add: matched_users_def run_request)
  have p: "p_gender (parse_params example_ext ?args) = Some ''f''"
    "p_min_age (parse_params example_ext ?args) = Some 30"
    "p_max_age (parse_params example_ext ?args) = Some 40"
    "\<not> origin_dist_valid example_ext (parse_params example_ext ?args)"
    by (simp_all add: origin_dist_valid_def parse_params_def args_get_def args_get_type_def
        truthy_def example_ext_def decimal_int_def digit_value_def)
  have "rows = [ann]"
    using t m by (simp add: p truthy_def example_db_def ann_def bob_def cyd_def)
  then have 1: "matched_users example_ext example_db ?args = Inr [ann]"
    using m by simp
  obtain r where r: "users example_ext example_db ?args = Inr r"
    by (simp add: run_request)
  have n: "length (results r) = 1"
    using r by (auto simp: run_request q_where_def q_filter_def User_query_def example_db_def
        ann_def bob_def cyd_def)
  have h2: "users example_ext example_db ?args = Inr r \<and>
        args_get ?args ''gender'' = Some ''f'' \<and>
        args_get_type (py_int example_ext) ?args ''min_age'' = Some 30 \<and>
        args_get_type (py_int example_ext) ?args ''max_age'' = Some 40"
    using r p by (simp add: parse_params_def)
  from t h2 obtain page where "results r = map (user_result example_ext example_db) page"
    by blast
  then have 2: "\<exists>r page. users example_ext example_db ?args = Inr r \<and>
      results r = map (user_result example_ext example_db) page \<and> length page = 1"
    using r n by (intro exI [of _ r] exI [of _ page]) auto
  have cs: "set ?cs = set (criteria ?q)"
    by (auto simp: q_filter_def User_query_def)
  have "q_where example_db (?q\<lparr>criteria := ?cs\<rparr>) = q_where example_db ?q"
    using t cs by blast
  also have "q_where example_db ?q = [ann, cyd]"
    by (simp add: q_where_def q_filter_def User_query_def example_db_def ann_def bob_def cyd_def)
  finally show ?thesis using 1 2 by simp
qed

subsection \<open>The query metadata\<close>

text \<open>
  C5. In every response, \<^verbatim>\<open>metadata.query\<close> holds \<open>limit\<close> and \<open>start\<close> with
  their effective values, holds each of \<open>gender\<close>, \<open>min_age\<close>, \<open>max_age\<close>,
  \<open>origin\<close> and \<open>dist\<close> exactly when that parameter was valid and applied as a filter,
  and holds no other key. For \<^verbatim>\<open>/users?gender=f&limit=2&start=0\<close> it is
  \<^verbatim>\<open>{"gender": "f", "limit": 2, "start": 0}\<close>, and at most two users are returned.
\<close>

theorem metadata_query_contents:
  "(\<forall>r. users ext db args = Inr r \<longrightarrow>
      map_of (query (metadata r)) ''limit'' = Some (JInt (p_limit (parse_params ext args))) \<and>
      map_of (query (metadata r)) ''start'' = Some (JInt (p_start (parse_params ext args))) \<and>
      map_of (query (metadata r)) ''gender'' =
        (if truthy (p_gender (parse_params ext args))
         then Some (JStr (the (p_gender (parse_params ext args)))) else None) \<and>
      map_of (query (metadata r)) ''min_age'' =
        map_option JInt (p_min_age (parse_params ext args)) \<and>
      map_of (query (metadata r)) ''max_age'' =
        map_option JInt (p_max_age (parse_params ext args)) \<and>
      map_of (query (metadata r)) ''origin'' =
        (if origin_dist_valid ext (parse_params ext args)
         then Some (JStr (the (p_origin (parse_params ext args)))) else None) \<and>
      map_of (query (metadata r)) ''dist'' =
        (if origin_dist_valid ext (parse_params ext args)
         then Some (JInt (the (p_dist (parse_params ext args)))) else None) \<and>
      set (map fst (query (metadata r))) \<subseteq>
        {''gender'', ''min_age'', ''max_age'', ''origin'', ''dist'', ''limit'', ''start''} \<and>
      distinct (map fst (query (metadata r)))) \<and>
   (py_int ext ''2'' = Some 2 \<and> py_int ext ''0'' = Some 0 \<longrightarrow>
      (\<exists>r. users ext db [(''gender'', ''f''), (''limit'', ''2''), (''start'', ''0'')] = Inr r \<and>
         query (metadata r) = [(''gender'', JStr ''f''), (''limit'', JInt 2), (''start'', JInt 0)] \<and>
         num_results r \<le> 2))"
proof (intro conjI allI impI)
  fix r
  assume "users ext db args = Inr r"
  note mq = users_metadata_query [OF this]
  show "map_of (query (metadata r)) ''limit'' = Some (JInt (p_limit (parse_params ext args)))"
    unfolding mq by (simp split: option.splits)
  show "map_of (query (metadata r)) ''start'' = Some (JInt (p_start (parse_params ext args)))"
    unfolding mq by (simp split: option.splits)
  show "map_of (query (metadata r)) ''gender'' =
        (if truthy (p_gender (parse_params ext args))
         then Some (JStr (the (p_gender (parse_params ext args)))) else None)"
    unfolding mq by (simp split: option.splits)
  show "map_of (query (metadata r)) ''min_age'' =
        map_option JInt (p_min_age (parse_params ext args))"
    unfolding mq by (simp split: option.splits)
  show "map_of (query (metadata r)) ''max_age'' =
        map_option JInt (p_max_age (parse_params ext args))"
    unfolding mq by (simp split: option.splits)
  show "map_of (query (metadata r)) ''origin'' =
        (if origin_dist_valid ext (parse_params ext args)
         then Some (JStr (the (p_origin (parse_params ext args)))) else None)"
    unfolding mq by (simp split: option.splits)
  show "map_of (query (metadata r)) ''dist'' =
        (if origin_dist_valid ext (parse_params ext args)
         then Some (JInt (the (p_dist (parse_params ext args)))) else None)"
    unfolding mq by (simp split: option.splits)
  show "set (map fst (query (metadata r))) \<subseteq>
        {''gender'', ''min_age'', ''max_age'', ''origin'', ''dist'', ''limit'', ''start''}"
    unfolding mq
    by (cases "truthy (p_gender (parse_params ext args))";
        cases "p_min_age (parse_params ext args)";
        cases "p_max_age (parse_params ext args)";
        cases "origin_dist_valid ext (parse_params ext args)"; simp)
  show "distinct (map fst (query (metadata r)))"
    unfolding mq
    by (cases "truthy (p_gender (parse_params ext args))";
        cases "p_min_age (parse_params ext args)";
        cases "p_max_age (parse_params ext args)";
        cases "origin_dist_valid ext (parse_params ext args)"; simp)
next
  assume h: "py_int ext ''2'' = Some 2 \<and> py_int ext ''0'' = Some 0"
  let ?args = "[(''gender'', ''f''), (''limit'', ''2''), (''start'', ''0'')]"
  have p: "parse_params ext ?args =
      \<lparr>p_gender = Some ''f'', p_min_age = None, p_max_age = None, p_origin = None,
       p_dist = None, p_limit = 2, p_start = 0\<rparr>"
    using h by (simp add: parse_params_def args_get_def args_get_type_def
        args_get_default_type_def)
  have f: "apply_filters ext (parse_params ext ?args) =
      Inr (q_filter User_query (\<lambda>db u. user_gender u = ''f''), [(''gender'', JStr ''f'')])"
    unfolding p
    by (simp add: apply_filters_def filter_gender_def filter_min_age_def filter_max_age_def
        filter_origin_dist_def truthy_def)
  show "\<exists>r. users ext db ?args = Inr r \<and>
         query (metadata r) = [(''gender'', JStr ''f''), (''limit'', JInt 2), (''start'', JInt 0)] \<and>
         num_results r \<le> 2"
    unfolding users_eq_matched f by (simp add: p)
qed

theorem metadata_query_contents_witness:
  "py_int example_ext ''2'' = Some 2 \<and> py_int example_ext ''0'' = Some 0 \<and>
   (\<exists>r. users example_ext example_db [(''gender'', ''f''), (''limit'', ''2''), (''start'', ''0'')] =
          Inr r \<and>
        query (metadata r) = [(''gender'', JStr ''f''), (''limit'', JInt 2), (''start'', JInt 0)] \<and>
        map_of (query (metadata r)) ''gender'' = Some (JStr ''f'') \<and>
        map_of (query (metadata r)) ''min_age'' = None \<and>
        map_of (query (metadata r)) ''origin'' = None)"
proof -
  let ?args = "[(''gender'', ''f''), (''limit'', ''2''), (''start'', ''0'')]"
  have h: "py_int example_ext ''2'' = Some 2 \<and> py_int example_ext ''0'' = Some 0"
    by (simp add: example_ext_def decimal_int_def digit_value_def)
  note t = metadata_query_contents [of example_ext example_db ?args]
  from t h obtain r where r: "users example_ext example_db ?args = Inr r"
    and q: "query (metadata r) = [(''gender'', JStr ''f''), (''limit'', JInt 2), (''start'', JInt 0)]"
    by blast
  have p: "p_gender (parse_params example_ext ?args) = Some ''f''"
    "p_min_age (parse_params example_ext ?args) = None"
    "\<not> origin_dist_valid example_ext (parse_params example_ext ?args)"
    by (simp_all add: origin_dist_valid_def parse_params_def args_get_def args_get_type_def
        truthy_def)
  have "map_of (query (metadata r)) ''gender'' = Some (JStr ''f'')"
    and "map_of (query (metadata r)) ''min_age'' = None"
    and "map_of (query (metadata r)) ''origin'' = None"
    using t r by (simp_all add: p truthy_def)
  then show ?thesis using h r q by simp
qed

subsection \<open>Requests without a usable origin and distance\<close>

text \<open>
  C6. If \<open>origin\<close> is absent or empty, or \<open>dist\<close> is absent or not an integer, or
  \<open>origin\<close> is malformed, then no distance filter is applied: the result set and the
  whole response are those of the same request with \<open>origin\<close> and \<open>dist\<close> removed.
\<close>

theorem no_geospatial_filter:
  assumes "args_get args ''origin'' = None \<or> args_get args ''origin'' = Some [] \<or>
           args_get args ''dist'' = None \<or>
           (\<exists>v. args_get args ''dist'' = Some v \<and> py_int ext v = None) \<or>
           (\<exists>v. args_get args ''origin'' = Some v \<and> parse_lat_lng ext v = (None, None))"
  shows "matched_users ext db args = matched_users ext db (without {''origin'', ''dist''} args) \<and>
         users ext db args = users ext db (without {''origin'', ''dist''} args)"
proof -
  let ?p = "parse_params ext args"
  have "\<not> truthy (p_origin ?p) \<or> p_dist ?p = None \<or>
        fst (parse_lat_lng ext (the (p_origin ?p))) = None"
    using assms
    by (auto simp: parse_params_def truthy_def args_get_def args_get_type_def)
  then have a: "apply_filters ext ?p =
      apply_filters ext (parse_params ext (without {''origin'', ''dist''} args))"
    unfolding parse_params_without_origin_dist by (rule apply_filters_skipped)
  have "matched_users ext db args = matched_users ext db (without {''origin'', ''dist''} args)"
    using a by (rule matched_users_cong)
  moreover have "users ext db args = users ext db (without {''origin'', ''dist''} args)"
    using a by (rule users_cong) (simp_all add: parse_params_without_origin_dist)
  ultimately show ?thesis by simp
qed

theorem no_geospatial_filter_witness:
  "py_int example_ext ''fifty'' = None \<and>
   users example_ext example_db
     [(''gender'', ''f''), (''origin'', ''40.0,-75.0''), (''dist'', ''fifty'')] =
   users example_ext example_db [(''gender'', ''f'')] \<and>
   matched_users example_ext example_db
     [(''gender'', ''f''), (''origin'', ''40.0,-75.0''), (''dist'', ''fifty'')] = Inr [ann, cyd]"
proof -
  let ?args = "[(''gender'', ''f''), (''origin'', ''40.0,-75.0''), (''dist'', ''fifty'')]"
  have n: "py_int example_ext ''fifty'' = None"
    by (simp add: example_ext_def decimal_int_def digit_value_def)
  have h: "args_get ?args ''origin'' = None \<or> args_get ?args ''origin'' = Some [] \<or>
           args_get ?args ''dist'' = None \<or>
           (\<exists>v. args_get ?args ''dist'' = Some v \<and> py_int example_ext v = None) \<or>
           (\<exists>v. args_get ?args ''origin'' = Some v \<and>
              parse_lat_lng example_ext v = (None, None))"
    using n by (simp add: args_get_def)
  have w: "without {''origin'', ''dist''} ?args = [(''gender'', ''f'')]"
    by (simp add: without_def)
  have m: "matched_users example_ext example_db [(''gender'', ''f'')] = Inr [ann, cyd]"
    by code_simp
  show ?thesis
    using no_geospatial_filter [OF h, of example_db] n m unfolding w by simp
qed

subsection \<open>Parameters that fail to parse\<close>



subsection \<open>The shape of the results\<close>

text \<open>
  C8. Every entry of \<open>results\<close> has the specified shape: \<open>properties\<close> with the id,
  name, age and gender of the user, and \<open>locationHistory\<close>, a feature collection with
  one feature for each location of the user, whose coordinates are longitude then
  latitude and whose \<open>city\<close> is the name of the location. The entries are those of the
  page of the result set, and \<open>num_results\<close> is the length of \<open>results\<close>.
\<close>

theorem response_shape:
  assumes "users ext db args = Inr r"
  shows "num_results r = length (results r) \<and>
    (\<exists>rows. matched_users ext db args = Inr rows \<and>
       results r =
         map (\<lambda>u.
           JObj [(''type'', JStr ''user''),
                 (''locationHistory'',
                    JObj [(''type'', JStr ''FeatureCollection''),
                          (''features'',
                             JList (map (\<lambda>l.
                               JObj [(''type'', JStr ''feature''),
                                     (''properties'', JObj [(''city'', JStr (loc_name l))]),
                                     (''geometry'',
                                        JObj [(''type'', JStr ''Point''),
                                              (''coordinates'',
                                                 JList [JFloat (longitude ext (loc_location l)),
                                                        JFloat (latitude ext (loc_location l))])])])
                               (filter (\<lambda>l. loc_user_id l = user_id u) (locations_table db))))]),
                 (''properties'',
                    JObj [(''id'', JInt (user_id u)),
                          (''name'', JStr (user_name u)),
                          (''age'', JInt (user_age u)),
                          (''gender'', JStr (user_gender u))])])
           (take (nat (p_limit (parse_params ext args)))
              (drop (nat (p_start (parse_params ext args))) rows)))"
proof -
  have shape: "user_result ext db =
    (\<lambda>u. JObj [(''type'', JStr ''user''),
                 (''locationHistory'',
                    JObj [(''type'', JStr ''FeatureCollection''),
                          (''features'',
                             JList (map (\<lambda>l.
                               JObj [(''type'', JStr ''feature''),
                                     (''properties'', JObj [(''city'', JStr (loc_name l))]),
                                     (''geometry'',
                                        JObj [(''type'', JStr ''Point''),
                                              (''coordinates'',
                                                 JList [JFloat (longitude ext (loc_location l)),
                                                        JFloat (latitude ext (loc_location l))])])])
                               (filter (\<lambda>l. loc_user_id l = user_id u) (locations_table db))))]),
                 (''properties'',
                    JObj [(''id'', JInt (user_id u)),
                          (''name'', JStr (user_name u)),
                          (''age'', JInt (user_age u)),
                          (''gender'', JStr (user_gender u))])])"
    by (rule ext) (simp add: user_result_def user_locations_def location_feature_def [abs_def])
  from assms obtain q mq rows where
    m: "matched_users ext db args = Inr rows"
    and r: "r = \<lparr>metadata = \<lparr>path = ''/users'',
               query = mq @ [(''limit'', JInt (p_limit (parse_params ext args))),
                             (''start'', JInt (p_start (parse_params ext args)))]\<rparr>,
             total_results = length rows,
             num_results = length (take (nat (p_limit (parse_params ext args)))
                                     (drop (nat (p_start (parse_params ext args))) rows)),
             results = map (user_result ext db)
                         (take (nat (p_limit (parse_params ext args)))
                            (drop (nat (p_start (parse_params ext args))) rows))\<rparr>"
    by (rule users_Inr)
  have "num_results r = length (results r)"
    unfolding r by simp
  moreover have "results r = map (user_result ext db)
                         (take (nat (p_limit (parse_params ext args)))
                            (drop (nat (p_start (parse_params ext args))) rows))"
    unfolding r by simp
  ultimately show ?thesis
    using m unfolding shape by blast
qed

theorem response_shape_witness:
  "\<exists>r. users example_ext example_db [(''gender'', ''m'')] = Inr r \<and>
     num_results r = length (results r) \<and>
     results r =
       [JObj [(''type'', JStr ''user''),
              (''locationHistory'',
                 JObj [(''type'', JStr ''FeatureCollection''),
                       (''features'',
                          JList [JObj [(''type'', JStr ''feature''),
                                       (''properties'', JObj [(''city'', JStr ''Oslo'')]),
                                       (''geometry'',
                                          JObj [(''type'', JStr ''Point''),
                                                (''coordinates'',
                                                   JList [JFloat 11, JFloat 60])])]])]),
              (''properties'',
                 JObj [(''id'', JInt 2), (''name'', JStr ''Bob''), (''age'', JInt 25),
                       (''gender'', JStr ''m'')])]]"
proof -
  let ?args = "[(''gender'', ''m'')]"
  obtain r where r: "users example_ext example_db ?args = Inr r"
    by (simp add: run_request)
  have m: "matched_users example_ext example_db ?args = Inr [bob]"
    by code_simp
  have p: "p_limit (parse_params example_ext ?args) = 5"
    "p_start (parse_params example_ext ?args) = 0"
    by (simp_all add: parse_params_def args_get_default_type_def)
  note t = response_shape [OF r]
  have "num_results r = length (results r)" using t by simp
  moreover have "results r =
       [JObj [(''type'', JStr ''user''),
              (''locationHistory'',
                 JObj [(''type'', JStr ''FeatureCollection''),
                       (''features'',
                          JList [JObj [(''type'', JStr ''feature''),
                                       (''properties'', JObj [(''city'', JStr ''Oslo'')]),
                                       (''geometry'',
                                          JObj [(''type'', JStr ''Point''),
                                                (''coordinates'',
                                                   JList [JFloat 11, JFloat 60])])]])]),
              (''properties'',
                 JObj [(''id'', JInt 2), (''name'', JStr ''Bob''), (''age'', JInt 25),
                       (''gender'', JStr ''m'')])]]"
    using t unfolding m p by (simp add: bob_def example_db_def example_ext_def)
  ultimately show ?thesis using r by simp
qed

subsection \<open>The seed loader\<close>



subsection \<open>An empty gender\<close>

text \<open>
  C10. An empty \<open>gender\<close> parameter is treated like an absent one: no gender filter is
  applied, the result set and the response are those of the request without the
  parameter, and \<^verbatim>\<open>metadata.query\<close> has no \<open>gender\<close> key.
\<close>

theorem empty_gender_is_absent:
  assumes "args_get args ''gender'' = Some []"
  shows "matched_users ext db args = matched_users ext db (without {''gender''} args) \<and>
         users ext db args = users ext db (without {''gender''} args) \<and>
         (\<forall>r. users ext db args = Inr r \<longrightarrow> map_of (query (metadata r)) ''gender'' = None)"
proof -
  let ?p = "parse_params ext args"
  have g: "\<not> truthy (p_gender ?p)"
    using assms by (simp add: parse_params_def truthy_def)
  have a: "apply_filters ext ?p = apply_filters ext (parse_params ext (without {''gender''} args))"
    unfolding parse_params_without_gender using g by (rule apply_filters_gender_falsy)
  have "matched_users ext db args = matched_users ext db (without {''gender''} args)"
    using a by (rule matched_users_cong)
  moreover have "users ext db args = users ext db (without {''gender''} args)"
    using a by (rule users_cong) (simp_all add: parse_params_without_gender)
  moreover have "map_of (query (metadata r)) ''gender'' = None" if "users ext db args = Inr r" for r
  proof -
    from that obtain q mq where
      f: "apply_filters ext ?p = Inr (q, mq)"
      and r: "query (metadata r) = mq @ [(''limit'', JInt (p_limit ?p)), (''start'', JInt (p_start ?p))]"
      by (rule users_Inr) simp
    show ?thesis
      unfolding r apply_filters_Inr(1) [OF f] using g
      by (simp split: option.splits)
  qed
  ultimately show ?thesis by simp
qed

theorem empty_gender_is_absent_witness:
  "users example_ext example_db [(''gender'', ''''), (''min_age'', ''30'')] =
     users example_ext example_db [(''min_age'', ''30'')] \<and>
   matched_users example_ext example_db [(''gender'', ''''), (''min_age'', ''30'')] =
     Inr [ann, cyd] \<and>
   (\<exists>r. users example_ext example_db [(''gender'', ''''), (''min_age'', ''30'')] = Inr r \<and>
        map_of (query (metadata r)) ''gender'' = None)"
proof -
  let ?args = "[(''gender'', ''''), (''min_age'', ''30'')]"
  have h: "args_get ?args ''gender'' = Some []"
    by (simp add: args_get_def)
  have w: "without {''gender''} ?args = [(''min_age'', ''30'')]"
    by (simp add: without_def)
  have m: "matched_users example_ext example_db [(''min_age'', ''30'')] = Inr [ann, cyd]"
    by code_simp
  obtain r where r: "users example_ext example_db ?args = Inr r"
    by (simp add: run_request)
  note t = empty_gender_is_absent [OF h, of example_ext example_db]
  have "map_of (query (metadata r)) ''gender'' = None"
    using t r by blast
  then have "\<exists>r. users example_ext example_db ?args = Inr r \<and>
        map_of (query (metadata r)) ''gender'' = None"
    using r by blast
  moreover have "users example_ext example_db ?args =
      users example_ext example_db [(''min_age'', ''30'')]"
    using t unfolding w by simp
  moreover have "matched_users example_ext example_db ?args = Inr [ann, cyd]"
    using t m unfolding w by simp
  ultimately show ?thesis by blast
qed

end
